theory Spec2Isabelle
  imports Complex_Main "HOL-Library.Sublist" "HOL-Library.Word"
begin

section \<open>Strings\<close>

text \<open>
  Python strings are modelled as \<open>string\<close>, each \<open>char\<close> read as a code point below
  256. On that range \<open>str.isspace\<close> holds for the code points 9 to 13, 28 to 32, 133 and
  160, and \<open>str.lower\<close> moves \<open>A\<close> to \<open>Z\<close> and the capital letters 192 to 222 (215, the
  multiplication sign, apart) up by 32.
\<close>

definition isspace :: "char \<Rightarrow> bool" where
  "isspace c =
     (let n = (of_char c :: nat)
      in (9 \<le> n \<and> n \<le> 13) \<or> (28 \<le> n \<and> n \<le> 32) \<or> n = 133 \<or> n = 160)"

definition strip :: "string \<Rightarrow> string" where
  "strip s = rev (dropWhile isspace (rev (dropWhile isspace s)))"

definition lower_char :: "char \<Rightarrow> char" where
  "lower_char c =
     (let n = (of_char c :: nat)
      in if (65 \<le> n \<and> n \<le> 90) \<or> (192 \<le> n \<and> n \<le> 222 \<and> n \<noteq> 215)
         then char_of (n + 32) else c)"

definition lower :: "string \<Rightarrow> string" where
  "lower s = map lower_char s"

text \<open>\<open>sep.join(parts)\<close>: the parts in order, \<open>sep\<close> between any two neighbours.\<close>

fun join :: "string \<Rightarrow> string list \<Rightarrow> string" where
  "join sep [] = []"
| "join sep [p] = p"
| "join sep (p # q # ps) = p @ sep @ join sep (q # ps)"

text \<open>\<open>str(n)\<close> of a natural number: its decimal digits.\<close>

fun str_nat :: "nat \<Rightarrow> string" where
  "str_nat n =
     (if n < 10 then [char_of (48 + n)]
      else str_nat (n div 10) @ [char_of (48 + n mod 10)])"

declare str_nat.simps [simp del]

text \<open>\<open>xs[-n:]\<close> for a positive \<open>n\<close>: the last \<open>n\<close> entries, all of \<open>xs\<close> when it is shorter.\<close>

definition last_n :: "nat \<Rightarrow> 'a list \<Rightarrow> 'a list" where
  "last_n n xs = drop (length xs - n) xs"

section \<open>Data model (api.py)\<close>

text \<open>
  \<open>Message\<close> and \<open>ChatRequest\<close> are the pydantic models of the service. The dictionary
  \<open>{"role": r, "content": c}\<close> that the service and the client build has the same two
  string fields as \<open>Message\<close> and is modelled by the same record; the client's payload has
  the four fields of \<open>ChatRequest\<close>. \<open>max_length\<close> is a Python integer; \<open>temperature\<close>, a
  float given by a decimal literal, is the real number that literal denotes.
\<close>

record Message =
  role :: string
  content :: string

record ChatRequest =
  message :: string
  history :: "Message list"
  max_length :: int
  temperature :: real

text \<open>An exception carries its message; \<open>str(e)\<close> reads it.\<close>

datatype exn = Exception string

fun str_exn :: "exn \<Rightarrow> string" where
  "str_exn (Exception m) = m"

section \<open>The chat endpoint: message assembly\<close>

text \<open>
  \<^verbatim>\<open>
  messages = []
  for msg in request.history:
      messages.append({"role": msg.role, "content": msg.content})
  messages.append({"role": "user", "content": request.message})
  \<close>
  The loop is a recursion over the history that carries \<open>messages\<close>.
\<close>

fun append_history :: "Message list \<Rightarrow> Message list \<Rightarrow> Message list" where
  "append_history messages [] = messages"
| "append_history messages (msg # rest) =
     append_history (messages @ [\<lparr>role = role msg, content = content msg\<rparr>]) rest"

definition build_messages :: "ChatRequest \<Rightarrow> Message list" where
  "build_messages request =
     append_history [] (history request) @ [\<lparr>role = ''user'', content = message request\<rparr>]"

section \<open>The chat endpoint: tokenizer, model and generation\<close>

text \<open>
  The tokenizer and the model come from the inference library; the endpoint is modelled
  for any of them. With \<open>return_tensors="pt"\<close> the token ids come as a tensor of 64-bit
  integers: a token is a \<open>64 word\<close>, read as signed, and the one-row tensor \<open>input_ids\<close> is
  the list of its row. A call that can raise returns \<open>exn + 'a\<close> (\<open>Inl\<close> the exception).
  Moving a tensor to the device does not change its values.
  \<^item> \<open>apply_chat_template\<close> is \<open>None\<close> when the tokenizer has no such attribute
    (\<open>hasattr\<close> is false); its result is an encoding (a dictionary, or an object with
    \<open>input_ids\<close>) or a bare tensor.
  \<^item> \<open>pad_token_id\<close> and \<open>eos_token_id\<close> are attributes of the tokenizer object, Python
    integers, or \<open>None\<close> when the tokenizer defines no such token.
  \<^item> The model is its \<open>generate\<close>: from \<open>input_ids\<close>, \<open>attention_mask\<close>, \<open>max_new_tokens\<close>,
    \<open>temperature\<close>, \<open>do_sample\<close> and \<open>pad_token_id\<close> to the first row of the output, the
    input followed by the sampled tokens. Sampling is the model's choice, so the theorems
    hold for every such function.
\<close>

type_synonym token = "64 word"

datatype template_out = Encoding "token list" | Tensor "token list"

record tokenizer =
  apply_chat_template :: "(Message list \<Rightarrow> exn + template_out) option"
  encode :: "string \<Rightarrow> exn + token list"
  decode :: "token list \<Rightarrow> exn + string"
  pad_token_id :: "int option"
  eos_token_id :: "int option"

type_synonym model =
  "token list \<Rightarrow> 64 word list \<Rightarrow> int \<Rightarrow> real \<Rightarrow> bool \<Rightarrow> int option \<Rightarrow> exn + token list"

record chat_response =
  response :: string

text \<open>\<open>HTTPException(status_code, detail)\<close>.\<close>

datatype http_exception = HTTPException nat string

text \<open>
  \<^verbatim>\<open>context = "\n".join([f"{m['role']}: {m['content']}" for m in messages])\<close>
\<close>

definition "context" :: "Message list \<Rightarrow> string" where
  "context messages = join [CHR 0x0A] (map (\<lambda>m. role m @ '': '' @ content m) messages)"

text \<open>
  Step 2 of the endpoint: the chat template when the tokenizer has one, the encoded plain
  transcript otherwise.
\<close>

definition tokenize :: "tokenizer \<Rightarrow> Message list \<Rightarrow> exn + token list" where
  "tokenize tok messages =
     (case apply_chat_template tok of
        Some template \<Rightarrow>
          (case template messages of
             Inl e \<Rightarrow> Inl e
           | Inr (Encoding input_ids) \<Rightarrow> Inr input_ids
           | Inr (Tensor input_ids) \<Rightarrow> Inr input_ids)
      | None \<Rightarrow> encode tok (context messages))"

text \<open>
  \<^verbatim>\<open>attention_mask = (input_ids != tokenizer.pad_token_id).long()\<close>
  The comparison of the tensor with a Python integer first turns the integer into a
  scalar: a signed 64-bit one when it fits, else an unsigned 64-bit one, which the
  comparison with a tensor of signed 64-bit integers then reads modulo \<open>2 ^ 64\<close>; an
  integer that fits neither raises \<open>OverflowError\<close>. The comparison is elementwise, and
  \<open>long\<close> turns true into 1 and false into 0. Against \<open>None\<close> the comparison is the plain
  truth value \<open>True\<close>, which has no \<open>long\<close>: the line raises.
\<close>

definition scalar :: "int \<Rightarrow> exn + 64 word" where
  "scalar p =
     (if p < - (2 ^ 63)
      then Inl (Exception (''can'' @ CHR 0x27 # ''t convert negative int to unsigned''))
      else if 2 ^ 64 \<le> p then Inl (Exception ''int too big to convert'')
      else Inr (word_of_int p))"

definition tensor_ne :: "token list \<Rightarrow> 64 word \<Rightarrow> bool list" where
  "tensor_ne input_ids pad = map (\<lambda>t. t \<noteq> pad) input_ids"

definition tensor_long :: "bool list \<Rightarrow> 64 word list" where
  "tensor_long bs = map (\<lambda>b. if b then 1 else 0) bs"

definition attention_mask :: "token list \<Rightarrow> 64 word \<Rightarrow> 64 word list" where
  "attention_mask input_ids pad = tensor_long (tensor_ne input_ids pad)"

definition build_mask :: "tokenizer \<Rightarrow> token list \<Rightarrow> exn + 64 word list" where
  "build_mask tok input_ids =
     (case pad_token_id tok of
        None \<Rightarrow>
          Inl (Exception (CHR 0x27 # ''bool'' @ CHR 0x27 # '' object has no attribute ''
                 @ CHR 0x27 # ''long'' @ [CHR 0x27]))
      | Some p \<Rightarrow>
          (case scalar p of
             Inl e \<Rightarrow> Inl e
           | Inr pad \<Rightarrow> Inr (attention_mask input_ids pad)))"

text \<open>The body of the \<open>try\<close> block of \<open>chat\<close>, steps 1 to 4.\<close>

definition chat_try :: "tokenizer \<Rightarrow> model \<Rightarrow> ChatRequest \<Rightarrow> exn + chat_response" where
  "chat_try tok generate request =
     (let messages = build_messages request in
      case tokenize tok messages of
        Inl e \<Rightarrow> Inl e
      | Inr input_ids \<Rightarrow>
          (case build_mask tok input_ids of
             Inl e \<Rightarrow> Inl e
           | Inr attention_mask' \<Rightarrow>
               (case generate input_ids attention_mask' (max_length request) (temperature request)
                       True (eos_token_id tok) of
                  Inl e \<Rightarrow> Inl e
                | Inr outputs \<Rightarrow>
                    (case decode tok (drop (length input_ids) outputs) of
                       Inl e \<Rightarrow> Inl e
                     | Inr response_text \<Rightarrow> Inr \<lparr>response = response_text\<rparr>))))"

text \<open>
  \<open>chat\<close>: the result of the \<open>try\<close> block, or, from the \<open>except Exception\<close> clause,
  \<open>HTTPException(status_code=500, detail=str(e))\<close>. The log lines the endpoint writes do
  not enter its result and are left out.
\<close>

definition chat :: "tokenizer \<Rightarrow> model \<Rightarrow> ChatRequest \<Rightarrow> http_exception + chat_response" where
  "chat tok generate request =
     (case chat_try tok generate request of
        Inl e \<Rightarrow> Inl (HTTPException 500 (str_exn e))
      | Inr r \<Rightarrow> Inr r)"

section \<open>HTTP responses\<close>

text \<open>
  A response as the client and the middleware read it: its status code and what
  \<open>response.json()\<close> gives, the parsed object (its keys with their string values) or the
  exception of a body that does not parse. The web framework turns the dictionary that
  \<open>chat\<close> returns into a 200 response with that body, and an \<open>HTTPException\<close> into a
  response with its status code and the body \<open>{"detail": detail}\<close>.
\<close>

record Response =
  status_code :: nat
  json :: "exn + (string \<times> string) list"

definition fastapi_response :: "http_exception + chat_response \<Rightarrow> Response" where
  "fastapi_response r =
     (case r of
        Inl (HTTPException code detail) \<Rightarrow>
          \<lparr>status_code = code, json = Inr [(''detail'', detail)]\<rparr>
      | Inr out \<Rightarrow> \<lparr>status_code = 200, json = Inr [(''response'', response out)]\<rparr>)"

text \<open>\<open>d.get(key, dflt)\<close>: the value under \<open>key\<close>, \<open>dflt\<close> when the key is absent.\<close>

definition get :: "(string \<times> string) list \<Rightarrow> string \<Rightarrow> string \<Rightarrow> string" where
  "get d key dflt = (case map_of d key of None \<Rightarrow> dflt | Some v \<Rightarrow> v)"

section \<open>The logging middleware\<close>

text \<open>
  The state the middleware works on: the lines written to the log, and how many times the
  downstream handler has been invoked. \<open>call_next\<close> is given by the outcome of each of
  its invocations, counted from 0: a response, or the exception it raises.
  \<^verbatim>\<open>
  logger.info(f"Incoming request: {request.method} {request.url}")
  try:
      response = await call_next(request)
      logger.info(f"Request completed with status: {response.status_code}")
      return response
  except Exception as e:
      logger.error(f"Request failed: {e}")
      # Do not swallow the exception; pass it to the next handler.
      return await call_next(request)
  \<close>
\<close>

datatype level = DEBUG | INFO | ERROR

record Request =
  "method" :: string
  url :: string

record server =
  logged :: "(level \<times> string) list"
  invocations :: nat

definition logger :: "level \<Rightarrow> string \<Rightarrow> server \<Rightarrow> server" where
  "logger lvl msg w = w\<lparr>logged := logged w @ [(lvl, msg)]\<rparr>"

definition await :: "(nat \<Rightarrow> exn + Response) \<Rightarrow> server \<Rightarrow> (exn + Response) \<times> server" where
  "await call_next w = (call_next (invocations w), w\<lparr>invocations := Suc (invocations w)\<rparr>)"

definition log_requests ::
  "Request \<Rightarrow> (nat \<Rightarrow> exn + Response) \<Rightarrow> server \<Rightarrow> (exn + Response) \<times> server" where
  "log_requests request call_next w =
     (let w1 = logger INFO (''Incoming request: '' @ method request @ '' '' @ url request) w;
          (r, w2) = await call_next w1
      in case r of
           Inr resp \<Rightarrow>
             (Inr resp,
              logger INFO (''Request completed with status: '' @ str_nat (status_code resp)) w2)
         | Inl e \<Rightarrow> await call_next (logger ERROR (''Request failed: '' @ str_exn e) w2))"

section \<open>The terminal client (chat.py)\<close>

text \<open>
  The client's state: its \<open>history\<close> variable (\<open>local_history\<close>), what it has printed
  (one entry per \<open>print\<close> or prompt, the text with its line end), the HTTP requests it has
  issued, and whether the loop is still running. One pass of \<open>while True\<close> consumes one
  event from the terminal: a line for \<open>input\<close>, the end of the input stream, or an
  interrupt. \<open>httpx.post\<close> is given by its outcome for a URL and a payload: a response, a
  \<open>RequestError\<close>, another exception, or an interrupt while waiting.
\<close>

datatype input_event = Line string | EOFError | KeyboardInterrupt

datatype post_outcome =
  Responded Response | RequestError string | OtherError string | Interrupted

datatype get_outcome = GetResponded | GetRequestError

datatype net_call = GET string | POST string ChatRequest

record client =
  local_history :: "Message list"
  printed :: "string list"
  network :: "net_call list"
  running :: bool

definition API_URL :: string where
  "API_URL = ''http://localhost:8000/chat''"

definition nl :: string where
  "nl = [CHR 0x0A]"

definition dashes :: string where
  "dashes = replicate 50 CHR ''-''"

definition print :: "string \<Rightarrow> string \<Rightarrow> client \<Rightarrow> client" where
  "print text ending s = s\<lparr>printed := printed s @ [text @ ending]\<rparr>"

text \<open>\<open>response.raise_for_status()\<close> raises \<open>HTTPStatusError\<close> unless the status is 2xx.\<close>

definition is_success :: "Response \<Rightarrow> bool" where
  "is_success resp = (200 \<le> status_code resp \<and> status_code resp \<le> 299)"

text \<open>
  \<^verbatim>\<open>
  history.append({"role": "user", "content": user_input})
  history.append({"role": "assistant", "content": bot_response})
  if len(history) > 20:  # 10 pairs
      history = history[-20:]
  \<close>
\<close>

definition update_history :: "Message list \<Rightarrow> string \<Rightarrow> string \<Rightarrow> Message list" where
  "update_history h user_input bot_response =
     (let h1 = h @ [\<lparr>role = ''user'', content = user_input\<rparr>];
          h2 = h1 @ [\<lparr>role = ''assistant'', content = bot_response\<rparr>]
      in if length h2 > 20 then last_n 20 h2 else h2)"

text \<open>
  \<^verbatim>\<open>
  payload = {"message": user_input, "history": history[-10:],
             "max_length": 500, "temperature": 0.7}
  \<close>
\<close>

definition payload :: "string \<Rightarrow> Message list \<Rightarrow> ChatRequest" where
  "payload user_input h =
     \<lparr>message = user_input, history = last_n 10 h, max_length = 500, temperature = 0.7\<rparr>"

text \<open>The inner \<open>try\<close> of the loop, from the outcome of \<open>httpx.post\<close> on.\<close>

definition handle_post :: "string \<Rightarrow> post_outcome \<Rightarrow> client \<Rightarrow> client" where
  "handle_post user_input outcome s =
     (case outcome of
        Interrupted \<Rightarrow> (print (nl @ ''Goodbye!'') nl s)\<lparr>running := False\<rparr>
      | RequestError e \<Rightarrow>
          print dashes nl
            (print (nl @ ''Error: Could not connect to server. ('' @ e @ '')'') nl s)
      | OtherError e \<Rightarrow> print dashes nl (print (nl @ ''An error occurred: '' @ e) nl s)
      | Responded resp \<Rightarrow>
          if \<not> is_success resp then
            (let s1 = print (nl @ ''Error: Server returned status ''
                               @ str_nat (status_code resp)) nl s;
                 s2 = (case json resp of
                         Inl e \<Rightarrow> s1
                       | Inr data \<Rightarrow> print (''Detail: '' @ get data ''detail'' ''No detail'') nl s1)
             in print dashes nl s2)
          else
            (let s1 = print ''Bot: '' [] s
             in case json resp of
                  Inl e \<Rightarrow> print dashes nl (print (nl @ ''An error occurred: '' @ str_exn e) nl s1)
                | Inr data \<Rightarrow>
                    (let bot_response = strip (get data ''response'' []);
                         s2 = print bot_response nl s1;
                         s3 = s2\<lparr>local_history :=
                                  update_history (local_history s2) user_input bot_response\<rparr>
                     in print dashes nl s3)))"

text \<open>One pass of the loop. Once the loop has been left, nothing happens any more.\<close>

definition turn ::
  "input_event \<Rightarrow> (string \<Rightarrow> ChatRequest \<Rightarrow> post_outcome) \<Rightarrow> client \<Rightarrow> client" where
  "turn ev post s =
     (if \<not> running s then s
      else
        (let s0 = print ''You: '' [] s
         in case ev of
              KeyboardInterrupt \<Rightarrow> (print (nl @ ''Goodbye!'') nl s0)\<lparr>running := False\<rparr>
            | EOFError \<Rightarrow> (print (nl @ ''Goodbye!'') nl s0)\<lparr>running := False\<rparr>
            | Line raw \<Rightarrow>
                (let user_input = strip raw
                 in if user_input = [] then s0
                    else if lower user_input \<in> set [''quit'', ''exit'']
                    then (print ''Goodbye!'' nl s0)\<lparr>running := False\<rparr>
                    else if lower user_input = ''clear''
                    then print ''History cleared.'' nl (s0\<lparr>local_history := []\<rparr>)
                    else
                      (let p = payload user_input (local_history s0);
                           s1 = print ''Bot: ...'' [CHR 0x0D] s0;
                           s2 = s1\<lparr>network := network s1 @ [POST API_URL p]\<rparr>
                       in handle_post user_input (post API_URL p) s2))))"

text \<open>
  \<open>main\<close> up to the loop: the banner, the empty history, the reachability check (which
  only warns), and then the loop over the events of the terminal, each with the network
  as it answers during that pass.
\<close>

definition main_init :: "get_outcome \<Rightarrow> client" where
  "main_init health =
     (let s0 = \<lparr>local_history = [], printed = [], network = [], running = True\<rparr>;
          s1 = print (''Welcome to Gemma Chat! (Type '' @ CHR 0x27 # ''quit'' @ CHR 0x27 # '' or ''
                      @ CHR 0x27 # ''exit'' @ CHR 0x27 # '' to leave, '' @ CHR 0x27 # ''clear''
                      @ CHR 0x27 # '' to reset history)'') nl s0;
          s2 = print dashes nl s1;
          s3 = s2\<lparr>network := network s2 @ [GET ''http://localhost:8000/'']\<rparr>
      in case health of
           GetResponded \<Rightarrow> s3
         | GetRequestError \<Rightarrow>
             print dashes nl
               (print (''Warning: Could not connect to http://localhost:8000. ''
                       @ ''Make sure the server is running via '' @ CHR 0x27 # ''./run.sh''
                       @ [CHR 0x27]) nl s3))"

fun run ::
  "(input_event \<times> (string \<Rightarrow> ChatRequest \<Rightarrow> post_outcome)) list \<Rightarrow> client \<Rightarrow> client" where
  "run [] s = s"
| "run (e # es) s = run es (turn (fst e) (snd e) s)"

definition main ::
  "get_outcome \<Rightarrow> (input_event \<times> (string \<Rightarrow> ChatRequest \<Rightarrow> post_outcome)) list \<Rightarrow> client" where
  "main health events = run events (main_init health)"

text \<open>The service as the client reaches it: \<open>POST /chat\<close> answered by \<open>chat\<close>.\<close>

definition service :: "tokenizer \<Rightarrow> model \<Rightarrow> string \<Rightarrow> ChatRequest \<Rightarrow> post_outcome" where
  "service tok generate u request = Responded (fastapi_response (chat tok generate request))"

section \<open>Well-formed local histories\<close>

text \<open>
  A history of completed turns: consecutive pairs, the first entry of each pair with role
  \<open>user\<close>, the second with role \<open>assistant\<close>.
\<close>

fun alternating :: "Message list \<Rightarrow> bool" where
  "alternating [] = True"
| "alternating [m] = False"
| "alternating (u # a # rest) =
     (role u = ''user'' \<and> role a = ''assistant'' \<and> alternating rest)"

section \<open>Sample tokenizers and models\<close>

text \<open>
  Small stand-ins for the library objects, to run the endpoint on: a tokenizer with a chat
  template, whose \<open>decode\<close> skips the end-of-sequence token 1 and renders any other token
  as \<open>Hi\<close>; the same tokenizer without the template; a model that samples one token and
  stops, one that stops at once, and one whose generation raises.
\<close>

definition toy_tokenizer :: tokenizer where
  "toy_tokenizer =
     \<lparr>apply_chat_template =
        Some (\<lambda>messages. Inr (Tensor (2 # replicate (length messages) 7))),
      encode = (\<lambda>s. Inr (2 # map (\<lambda>c. 7) s)),
      decode = (\<lambda>tokens. Inr (concat (map (\<lambda>t. if t = 1 then [] else ''Hi'') tokens))),
      pad_token_id = Some 0,
      eos_token_id = Some 1\<rparr>"

definition plain_tokenizer :: tokenizer where
  "plain_tokenizer = toy_tokenizer\<lparr>apply_chat_template := None\<rparr>"

definition toy_model :: model where
  "toy_model input_ids am max_new_tokens temp do_sample pad = Inr (input_ids @ [5, 1])"

definition silent_model :: model where
  "silent_model input_ids am max_new_tokens temp do_sample pad = Inr (input_ids @ [1])"

definition failing_model :: model where
  "failing_model input_ids am max_new_tokens temp do_sample pad =
     Inl (Exception ''out of memory'')"

text \<open>
  Further stand-ins: a tokenizer whose pad token is its end-of-sequence token 1 and whose
  template closes every message with it; one whose template renders the plain transcript;
  and tokenizers that have the template method but no template (the call raises), no pad
  token, a failing \<open>encode\<close> and a failing \<open>decode\<close>.
\<close>

definition eos_pad_tokenizer :: tokenizer where
  "eos_pad_tokenizer =
     toy_tokenizer\<lparr>
       apply_chat_template :=
         Some (\<lambda>messages. Inr (Tensor (2 # concat (map (\<lambda>m. [7, 1]) messages)))),
       pad_token_id := Some 1\<rparr>"

definition transcript_tokenizer :: tokenizer where
  "transcript_tokenizer =
     toy_tokenizer\<lparr>
       apply_chat_template :=
         Some (\<lambda>messages. Inr (Tensor (2 # map (\<lambda>c. 7) (context messages))))\<rparr>"

definition no_template_tokenizer :: tokenizer where
  "no_template_tokenizer =
     toy_tokenizer\<lparr>
       apply_chat_template := Some (\<lambda>messages. Inl (Exception ''no chat template set''))\<rparr>"

definition no_pad_tokenizer :: tokenizer where
  "no_pad_tokenizer = toy_tokenizer\<lparr>pad_token_id := None\<rparr>"

definition failing_encode_tokenizer :: tokenizer where
  "failing_encode_tokenizer =
     plain_tokenizer\<lparr>encode := (\<lambda>s. Inl (Exception ''cannot encode''))\<rparr>"

definition failing_decode_tokenizer :: tokenizer where
  "failing_decode_tokenizer =
     toy_tokenizer\<lparr>decode := (\<lambda>tokens. Inl (Exception ''cannot decode''))\<rparr>"

text \<open>A client that has just entered its loop, before any output.\<close>

definition idle :: client where
  "idle = \<lparr>local_history = [], printed = [], network = [], running = True\<rparr>"

text \<open>A local history of ten completed turns.\<close>

definition full_history :: "Message list" where
  "full_history = concat (replicate 10
     [\<lparr>role = ''user'', content = ''Hello''\<rparr>, \<lparr>role = ''assistant'', content = ''Hi''\<rparr>])"

section \<open>Evaluation and basic facts\<close>

lemmas string_eval =
  strip_def isspace_def lower_def lower_char_def char_of_def bit_Suc_0_iff

lemmas mask_eval =
  build_mask_def scalar_def attention_mask_def tensor_ne_def tensor_long_def

lemma length_last_n: "length (last_n n xs) = min n (length xs)"
  by (simp add: last_n_def)

lemma suffix_last_n: "suffix (last_n n xs) xs"
  by (simp add: last_n_def suffix_drop)

section \<open>Properties of message assembly\<close>

lemma append_history_eq: "append_history acc h = acc @ h"
  by (induction h arbitrary: acc) simp_all

text \<open>
  Claim C3. For a chat request with history \<open>h\<close> and message \<open>m\<close>, the list assembled for
  the model is \<open>h\<close> followed by the one entry with role \<open>user\<close> and content \<open>m\<close>: it has
  \<open>length h + 1\<close> entries, entry \<open>i\<close> of \<open>h\<close> is entry \<open>i\<close> of the list with its role and
  content unchanged, the last entry is the user turn, and an empty history gives exactly
  that one user turn.
\<close>

theorem build_messages_history_then_user:
  fixes request :: ChatRequest
  defines "h \<equiv> history request" and "m \<equiv> message request"
  shows "build_messages request = h @ [\<lparr>role = ''user'', content = m\<rparr>]
    \<and> length (build_messages request) = length h + 1
    \<and> (\<forall>i < length h. role (build_messages request ! i) = role (h ! i)
          \<and> content (build_messages request ! i) = content (h ! i))
    \<and> build_messages request ! length h = \<lparr>role = ''user'', content = m\<rparr>
    \<and> (h = [] \<longrightarrow> build_messages request = [\<lparr>role = ''user'', content = m\<rparr>])"
  by (simp add: build_messages_def append_history_eq h_def m_def nth_append)

theorem build_messages_history_then_user_witness:
  "build_messages \<lparr>message = ''and you?'',
      history = [\<lparr>role = ''user'', content = ''Hello''\<rparr>,
                 \<lparr>role = ''assistant'', content = ''Hi''\<rparr>],
      max_length = 200, temperature = 0.7\<rparr>
   = [\<lparr>role = ''user'', content = ''Hello''\<rparr>,
      \<lparr>role = ''assistant'', content = ''Hi''\<rparr>,
      \<lparr>role = ''user'', content = ''and you?''\<rparr>]
   \<and> build_messages \<lparr>message = ''Hello'', history = [], max_length = 200, temperature = 0.7\<rparr>
   = [\<lparr>role = ''user'', content = ''Hello''\<rparr>]"
  using build_messages_history_then_user
    [of "\<lparr>message = ''and you?'',
      history = [\<lparr>role = ''user'', content = ''Hello''\<rparr>,
                 \<lparr>role = ''assistant'', content = ''Hi''\<rparr>],
      max_length = 200, temperature = 0.7\<rparr>"]
    build_messages_history_then_user
    [of "\<lparr>message = ''Hello'', history = [], max_length = 200, temperature = 0.7\<rparr>"]
  by simp

section \<open>The client loop: what a pass can change\<close>

lemma turn_history_cases:
  "local_history (turn ev post s) = local_history s
   \<or> local_history (turn ev post s) = []
   \<or> (\<exists>u b. local_history (turn ev post s) = update_history (local_history s) u b)"
  by (auto simp: turn_def handle_post_def print_def Let_def
      split: input_event.splits post_outcome.splits sum.splits)

lemma turn_network_cases:
  "network (turn ev post s) = network s
   \<or> (\<exists>u. network (turn ev post s) = network s @ [POST API_URL (payload u (local_history s))])"
  by (auto simp: turn_def handle_post_def print_def Let_def
      split: input_event.splits post_outcome.splits sum.splits)

lemma run_history_invariant:
  assumes nil: "P []"
    and upd: "\<And>h u b. P h \<Longrightarrow> P (update_history h u b)"
  shows "P (local_history s) \<Longrightarrow> P (local_history (run events s))"
proof (induction events arbitrary: s)
  case Nil
  then show ?case by simp
next
  case (Cons e es)
  from turn_history_cases [of "fst e" "snd e" s] Cons.prems nil upd
  have "P (local_history (turn (fst e) (snd e) s))"
    by auto
  then have "P (local_history (run es (turn (fst e) (snd e) s)))"
    by (rule Cons.IH)
  then show ?case by simp
qed

lemma main_init_history: "local_history (main_init health) = []"
  by (cases health) (simp_all add: main_init_def print_def Let_def)

lemma main_init_network: "network (main_init health) = [GET ''http://localhost:8000/'']"
  by (cases health) (simp_all add: main_init_def print_def Let_def)

lemma main_init_running: "running (main_init health)"
  by (cases health) (simp_all add: main_init_def print_def Let_def)

lemma length_update_history:
  "length (update_history h u b) = min 20 (length h + 2)"
  by (simp add: update_history_def Let_def length_last_n)

lemma suffix_update_history:
  "suffix (update_history h u b)
     (h @ [\<lparr>role = ''user'', content = u\<rparr>, \<lparr>role = ''assistant'', content = b\<rparr>])"
  using suffix_last_n [of 20 "h @ [\<lparr>role = ''user'', content = u\<rparr>, \<lparr>role = ''assistant'', content = b\<rparr>]"]
  by (simp add: update_history_def Let_def)

lemma turn_completed:
  assumes "running s" and "strip raw \<noteq> []"
    and "lower (strip raw) \<notin> {''quit'', ''exit'', ''clear''}"
    and "post API_URL (payload (strip raw) (local_history s)) = Responded resp"
    and "is_success resp" and "json resp = Inr data"
  shows "local_history (turn (Line raw) post s)
    = update_history (local_history s) (strip raw) (strip (get data ''response'' []))"
  using assms by (simp add: turn_def handle_post_def print_def Let_def)

lemma alternating_even: "alternating xs \<Longrightarrow> even (length xs)"
  by (induction xs rule: alternating.induct) simp_all

lemma alternating_append:
  "alternating xs \<Longrightarrow> alternating ys \<Longrightarrow> alternating (xs @ ys)"
  by (induction xs rule: alternating.induct) simp_all

lemma alternating_drop:
  "alternating xs \<Longrightarrow> even k \<Longrightarrow> alternating (drop k xs)"
proof (induction xs arbitrary: k rule: alternating.induct)
  case 1
  then show ?case by simp
next
  case (2 m)
  then show ?case by simp
next
  case (3 u a rest)
  show ?case
  proof (cases k)
    case 0
    with "3.prems" show ?thesis by simp
  next
    case (Suc j)
    with "3.prems"(2) obtain i where j: "j = Suc i" and "even i"
      by (cases j) auto
    with "3.prems"(1) "3.IH" [of i] Suc show ?thesis by simp
  qed
qed

lemma alternating_nth:
  "alternating xs \<Longrightarrow> i < length xs \<Longrightarrow>
     role (xs ! i) = (if even i then ''user'' else ''assistant'')"
proof (induction xs arbitrary: i rule: alternating.induct)
  case 1
  then show ?case by simp
next
  case (2 m)
  then show ?case by simp
next
  case (3 u a rest)
  show ?case
  proof (cases i)
    case 0
    with "3.prems" show ?thesis by simp
  next
    case (Suc j)
    show ?thesis
    proof (cases j)
      case 0
      with Suc "3.prems" show ?thesis by simp
    next
      case (Suc k)
      with \<open>i = Suc j\<close> "3.prems" "3.IH" [of k] show ?thesis by simp
    qed
  qed
qed

lemma alternating_update_history:
  assumes "alternating h"
  shows "alternating (update_history h u b)"
proof -
  let ?h2 = "h @ [\<lparr>role = ''user'', content = u\<rparr>, \<lparr>role = ''assistant'', content = b\<rparr>]"
  have a2: "alternating ?h2"
    using assms by (intro alternating_append) simp_all
  have "even (length ?h2 - 20)"
    using alternating_even [OF a2] by simp
  with a2 have "alternating (drop (length ?h2 - 20) ?h2)"
    by (rule alternating_drop)
  with a2 show ?thesis
    by (simp add: update_history_def Let_def last_n_def)
qed

lemma turn_posts:
  assumes "running s" and "strip raw \<noteq> []"
    and "lower (strip raw) \<notin> {''quit'', ''exit'', ''clear''}"
  shows "network (turn (Line raw) post s)
    = network s @ [POST API_URL (payload (strip raw) (local_history s))]"
  using assms
  by (auto simp: turn_def handle_post_def print_def Let_def
      split: post_outcome.splits sum.splits)

section \<open>The logging middleware calls the handler again\<close>

lemma log_requests_failure_invocations:
  "call_next (invocations w) = Inl e \<Longrightarrow>
     invocations (snd (log_requests request call_next w)) = invocations w + 2"
  by (simp add: log_requests_def await_def logger_def)

lemma log_requests_success_invocations:
  "call_next (invocations w) = Inr resp \<Longrightarrow>
     invocations (snd (log_requests request call_next w)) = invocations w + 1"
  by (simp add: log_requests_def await_def logger_def)

text \<open>
  Claim C1 says that a handler that raises is reported once and not invoked a second time.
  On a handler that raises \<open>boom\<close> at every invocation, \<open>log_requests\<close> logs the failure,
  invokes the handler a second time, and lets the second exception out unlogged: the
  handler has run twice.
\<close>

theorem log_requests_invokes_failing_handler_twice:
  "log_requests \<lparr>method = ''POST'', url = ''http://localhost:8000/chat''\<rparr>
     (\<lambda>k. Inl (Exception ''boom'')) \<lparr>logged = [], invocations = 0\<rparr>
   = (Inl (Exception ''boom''),
      \<lparr>logged = [(INFO, ''Incoming request: POST http://localhost:8000/chat''),
                 (ERROR, ''Request failed: boom'')],
       invocations = 2\<rparr>)"
  by (simp add: log_requests_def await_def logger_def)

section \<open>The first turn\<close>

lemma chat_try_success:
  assumes "tokenize tok (build_messages request) = Inr input_ids"
    and "build_mask tok input_ids = Inr am"
    and "generate input_ids am (max_length request) (temperature request) True
           (eos_token_id tok) = Inr outputs"
    and "decode tok (drop (length input_ids) outputs) = Inr response_text"
  shows "chat_try tok generate request = Inr \<lparr>response = response_text\<rparr>"
  using assms by (simp add: chat_try_def)

text \<open>
  Claim C2 as stated fails twice. On the first turn with the input \<open>Hello\<close> the payload
  carries \<open>max_length\<close> 500, not 200; and with a model that stops at once the service
  answers that payload with the empty response text.
\<close>

theorem first_turn_payload_counterexample:
  "payload (strip ''Hello'') (local_history (main_init GetResponded))
     \<noteq> \<lparr>message = ''Hello'', history = [], max_length = 200, temperature = 0.7\<rparr>
   \<and> chat toy_tokenizer silent_model
        (payload (strip ''Hello'') (local_history (main_init GetResponded)))
     = Inr \<lparr>response = []\<rparr>"
  by (simp add: payload_def main_init_history last_n_def chat_def chat_try_def
      build_messages_def tokenize_def mask_eval toy_tokenizer_def
      silent_model_def string_eval)

text \<open>
  Claim C2, amended. On the first turn (the history still empty) with the input \<open>Hello\<close>,
  the client issues exactly one POST to the chat URL, with the body
  \<open>{"message": "Hello", "history": [], "max_length": 500, "temperature": 0.7}\<close>; and when
  tokenization, the mask, generation and decoding of that request all succeed, the
  service returns \<open>{"response": text}\<close>, \<open>text\<close> being the decoded newly generated tokens.
\<close>

theorem first_turn_hello:
  "network (turn (Line ''Hello'') post (main_init health))
     = [GET ''http://localhost:8000/'',
        POST API_URL \<lparr>message = ''Hello'', history = [], max_length = 500, temperature = 0.7\<rparr>]
   \<and> (tokenize tok [\<lparr>role = ''user'', content = ''Hello''\<rparr>] = Inr input_ids
        \<and> build_mask tok input_ids = Inr am
        \<and> generate input_ids am 500 0.7 True (eos_token_id tok) = Inr outputs
        \<and> decode tok (drop (length input_ids) outputs) = Inr response_text
      \<longrightarrow> chat tok generate
            \<lparr>message = ''Hello'', history = [], max_length = 500, temperature = 0.7\<rparr>
          = Inr \<lparr>response = response_text\<rparr>)"
proof -
  let ?request = "\<lparr>message = ''Hello'', history = [], max_length = 500, temperature = 0.7\<rparr>"
  have s: "strip ''Hello'' = ''Hello''" and l: "lower ''Hello'' = ''hello''"
    by (simp_all add: string_eval)
  have "network (turn (Line ''Hello'') post (main_init health))
      = network (main_init health)
        @ [POST API_URL (payload (strip ''Hello'') (local_history (main_init health)))]"
    by (rule turn_posts) (simp_all add: main_init_running s l)
  then have net: "network (turn (Line ''Hello'') post (main_init health))
     = [GET ''http://localhost:8000/'', POST API_URL ?request]"
    by (simp add: main_init_network main_init_history s payload_def last_n_def)
  have "chat tok generate ?request = Inr \<lparr>response = response_text\<rparr>"
    if "tokenize tok [\<lparr>role = ''user'', content = ''Hello''\<rparr>] = Inr input_ids"
      and "build_mask tok input_ids = Inr am"
      and "generate input_ids am 500 0.7 True (eos_token_id tok) = Inr outputs"
      and "decode tok (drop (length input_ids) outputs) = Inr response_text"
    using that chat_try_success [of tok ?request input_ids am generate outputs response_text]
    by (simp add: chat_def build_messages_def)
  with net show ?thesis by blast
qed

theorem first_turn_hello_witness:
  "network (turn (Line ''Hello'') (service toy_tokenizer toy_model) (main_init GetResponded))
     = [GET ''http://localhost:8000/'',
        POST API_URL \<lparr>message = ''Hello'', history = [], max_length = 500, temperature = 0.7\<rparr>]
   \<and> chat toy_tokenizer toy_model
        \<lparr>message = ''Hello'', history = [], max_length = 500, temperature = 0.7\<rparr>
     = Inr \<lparr>response = ''Hi''\<rparr>"
  using first_turn_hello [of "service toy_tokenizer toy_model" GetResponded toy_tokenizer
      "[2, 7]" "[1, 1]" toy_model "[2, 7, 5, 1]" "''Hi''"]
  by (simp add: tokenize_def toy_tokenizer_def toy_model_def mask_eval)

section \<open>Sample runs\<close>

lemma service_toy:
  "service toy_tokenizer toy_model u request
     = Responded \<lparr>status_code = 200, json = Inr [(''response'', ''Hi'')]\<rparr>"
  by (simp add: service_def fastapi_response_def chat_def chat_try_def tokenize_def
      mask_eval toy_tokenizer_def toy_model_def)

lemma strip_samples:
  "strip ''Hello'' = ''Hello''" "strip ''again'' = ''again''" "strip ''Hi'' = ''Hi''"
  "strip '' Clear '' = ''Clear''"
  by (simp_all add: string_eval)

lemma lower_samples:
  "lower ''Hello'' = ''hello''" "lower ''again'' = ''again''" "lower ''Clear'' = ''clear''"
  by (simp_all add: string_eval)

lemma turn_toy:
  assumes "running s" and "strip raw \<noteq> []"
    and "lower (strip raw) \<notin> {''quit'', ''exit'', ''clear''}"
  shows "local_history (turn (Line raw) (service toy_tokenizer toy_model) s)
      = update_history (local_history s) (strip raw) ''Hi''"
    and "running (turn (Line raw) (service toy_tokenizer toy_model) s)"
  using assms
  by (simp_all add: turn_def handle_post_def print_def Let_def service_toy is_success_def
      get_def strip_samples)

lemma main_two_turns:
  "local_history (main GetResponded
        [(Line ''Hello'', service toy_tokenizer toy_model),
         (Line ''again'', service toy_tokenizer toy_model)])
     = [\<lparr>role = ''user'', content = ''Hello''\<rparr>, \<lparr>role = ''assistant'', content = ''Hi''\<rparr>,
        \<lparr>role = ''user'', content = ''again''\<rparr>, \<lparr>role = ''assistant'', content = ''Hi''\<rparr>]"
proof -
  let ?t1 = "turn (Line ''Hello'') (service toy_tokenizer toy_model) (main_init GetResponded)"
  have 1: "local_history ?t1 = update_history [] ''Hello'' ''Hi''" and r1: "running ?t1"
    using turn_toy [of "main_init GetResponded" "''Hello''"]
    by (simp_all add: main_init_running main_init_history strip_samples lower_samples)
  have "local_history (turn (Line ''again'') (service toy_tokenizer toy_model) ?t1)
      = update_history (local_history ?t1) ''again'' ''Hi''"
    using turn_toy(1) [of ?t1 "''again''"] r1
    by (simp add: strip_samples lower_samples)
  with 1 show ?thesis
    by (simp add: main_def update_history_def)
qed

lemma length_full_history: "length full_history = 20"
  by code_simp

section \<open>Failures of the chat endpoint\<close>

lemma chat_try_raises_iff:
  "chat_try tok generate request = Inl e \<longleftrightarrow>
     tokenize tok (build_messages request) = Inl e
     \<or> (\<exists>input_ids. tokenize tok (build_messages request) = Inr input_ids
          \<and> (build_mask tok input_ids = Inl e
             \<or> (\<exists>am. build_mask tok input_ids = Inr am
                  \<and> (generate input_ids am (max_length request) (temperature request) True
                         (eos_token_id tok) = Inl e
                     \<or> (\<exists>outputs. generate input_ids am (max_length request)
                            (temperature request) True (eos_token_id tok) = Inr outputs
                          \<and> decode tok (drop (length input_ids) outputs) = Inl e)))))"
  by (auto simp: chat_try_def Let_def split: sum.splits)

lemma tokenize_raises_iff:
  "tokenize tok messages = Inl e \<longleftrightarrow>
     (\<exists>template. apply_chat_template tok = Some template \<and> template messages = Inl e)
     \<or> (apply_chat_template tok = None \<and> encode tok (context messages) = Inl e)"
  by (auto simp: tokenize_def split: option.splits sum.splits template_out.splits)

lemma chat_total:
  "(\<exists>r. chat tok generate request = Inr r)
   \<or> (\<exists>e. chat tok generate request = Inl (HTTPException 500 (str_exn e)))"
  by (auto simp: chat_def split: sum.splits)

lemma log_requests_passes_response:
  "call_next (invocations w) = Inr resp \<Longrightarrow> fst (log_requests request call_next w) = Inr resp"
  by (simp add: log_requests_def await_def logger_def)

lemma client_on_500:
  assumes "running s" and "strip raw \<noteq> []"
    and "lower (strip raw) \<notin> {''quit'', ''exit'', ''clear''}"
    and "post API_URL (payload (strip raw) (local_history s))
      = Responded \<lparr>status_code = 500, json = Inr [(''detail'', d)]\<rparr>"
  shows "turn (Line raw) post s
      = s\<lparr>printed := printed s @ [''You: '', ''Bot: ...'' @ [CHR 0x0D],
              nl @ ''Error: Server returned status 500'' @ nl,
              ''Detail: '' @ d @ nl, dashes @ nl],
           network := network s @ [POST API_URL (payload (strip raw) (local_history s))]\<rparr>"
proof -
  have n: "str_nat 500 = ''500''"
    by (simp add: str_nat.simps char_of_def bit_Suc_0_iff)
  from assms show ?thesis
    by (simp add: turn_def handle_post_def print_def Let_def is_success_def get_def n)
qed

text \<open>
  Claim C4. Let the client, in its loop, read a line that is a chat message, and let the
  service answer the request built from it. If an exception \<open>e\<close> is raised while the
  request is served, by the chat template, by \<open>encode\<close> in the fallback, by the building
  of the mask, by the generation or by the decoding (the message assembly itself raises
  nothing), then the exception does not leave the endpoint: \<open>chat\<close> answers with
  \<open>HTTPException(500, str(e))\<close>, which reaches the client as a response of status 500 whose
  body holds \<open>str(e)\<close> under \<open>detail\<close>. The client prints the status and the detail,
  leaves its local history as it was, and stays in its loop.
\<close>

theorem chat_exception_gives_500_and_history_kept:
  fixes s :: client and raw :: string and tok :: tokenizer and generate :: model
  defines "request \<equiv> payload (strip raw) (local_history s)"
  assumes "running s" and "strip raw \<noteq> []"
    and "lower (strip raw) \<notin> {''quit'', ''exit'', ''clear''}"
    and raised:
      "(\<exists>template. apply_chat_template tok = Some template
          \<and> template (build_messages request) = Inl e)
       \<or> (apply_chat_template tok = None
          \<and> encode tok (context (build_messages request)) = Inl e)
       \<or> (\<exists>input_ids. tokenize tok (build_messages request) = Inr input_ids
            \<and> (build_mask tok input_ids = Inl e
               \<or> (\<exists>am. build_mask tok input_ids = Inr am
                    \<and> (generate input_ids am (max_length request) (temperature request) True
                           (eos_token_id tok) = Inl e
                       \<or> (\<exists>outputs. generate input_ids am (max_length request)
                              (temperature request) True (eos_token_id tok) = Inr outputs
                            \<and> decode tok (drop (length input_ids) outputs) = Inl e)))))"
  shows "chat tok generate request = Inl (HTTPException 500 (str_exn e))
    \<and> fastapi_response (chat tok generate request)
      = \<lparr>status_code = 500, json = Inr [(''detail'', str_exn e)]\<rparr>
    \<and> local_history (turn (Line raw) (service tok generate) s) = local_history s
    \<and> running (turn (Line raw) (service tok generate) s)
    \<and> printed (turn (Line raw) (service tok generate) s)
      = printed s @ [''You: '', ''Bot: ...'' @ [CHR 0x0D],
          nl @ ''Error: Server returned status 500'' @ nl,
          ''Detail: '' @ str_exn e @ nl, dashes @ nl]"
proof -
  from raised have "chat_try tok generate request = Inl e"
    unfolding chat_try_raises_iff tokenize_raises_iff by blast
  then have c: "chat tok generate request = Inl (HTTPException 500 (str_exn e))"
    by (simp add: chat_def)
  then have f: "fastapi_response (chat tok generate request)
      = \<lparr>status_code = 500, json = Inr [(''detail'', str_exn e)]\<rparr>"
    by (simp add: fastapi_response_def)
  then have "service tok generate API_URL (payload (strip raw) (local_history s))
      = Responded \<lparr>status_code = 500, json = Inr [(''detail'', str_exn e)]\<rparr>"
    by (simp add: service_def request_def)
  with assms(2-4) have "turn (Line raw) (service tok generate) s
      = s\<lparr>printed := printed s @ [''You: '', ''Bot: ...'' @ [CHR 0x0D],
              nl @ ''Error: Server returned status 500'' @ nl,
              ''Detail: '' @ str_exn e @ nl, dashes @ nl],
           network := network s @ [POST API_URL (payload (strip raw) (local_history s))]\<rparr>"
    by (rule client_on_500)
  with c f assms(2) show ?thesis by simp
qed

theorem chat_exception_gives_500_and_history_kept_witness:
  "chat no_template_tokenizer toy_model (payload ''Hello'' [])
      = Inl (HTTPException 500 ''no chat template set'')
   \<and> chat failing_encode_tokenizer toy_model (payload ''Hello'' [])
      = Inl (HTTPException 500 ''cannot encode'')
   \<and> chat no_pad_tokenizer toy_model (payload ''Hello'' [])
      = Inl (HTTPException 500 (CHR 0x27 # ''bool'' @ CHR 0x27 # '' object has no attribute ''
                 @ CHR 0x27 # ''long'' @ [CHR 0x27]))
   \<and> chat toy_tokenizer failing_model (payload ''Hello'' [])
      = Inl (HTTPException 500 ''out of memory'')
   \<and> chat failing_decode_tokenizer toy_model (payload ''Hello'' [])
      = Inl (HTTPException 500 ''cannot decode'')
   \<and> local_history (turn (Line ''Hello'') (service no_template_tokenizer toy_model) idle) = []
   \<and> local_history (turn (Line ''Hello'') (service toy_tokenizer failing_model) idle) = []
   \<and> running (turn (Line ''Hello'') (service toy_tokenizer failing_model) idle)
   \<and> printed (turn (Line ''Hello'') (service toy_tokenizer failing_model) idle)
      = [''You: '', ''Bot: ...'' @ [CHR 0x0D],
          nl @ ''Error: Server returned status 500'' @ nl,
          ''Detail: out of memory'' @ nl, dashes @ nl]"
proof -
  have i: "running idle" "local_history idle = []" "printed idle = []"
    by (simp_all add: idle_def)
  have m: "build_messages (payload ''Hello'' []) = [\<lparr>role = ''user'', content = ''Hello''\<rparr>]"
    by (simp add: build_messages_def payload_def last_n_def)
  note ev = strip_samples lower_samples i m tokenize_def mask_eval toy_tokenizer_def
    plain_tokenizer_def toy_model_def
  have 1: "chat no_template_tokenizer toy_model (payload ''Hello'' [])
      = Inl (HTTPException 500 ''no chat template set'')
    \<and> local_history (turn (Line ''Hello'') (service no_template_tokenizer toy_model) idle) = []"
    using chat_exception_gives_500_and_history_kept [of idle "''Hello''" no_template_tokenizer
        "Exception ''no chat template set''" toy_model]
    by (simp add: ev no_template_tokenizer_def)
  have 2: "chat failing_encode_tokenizer toy_model (payload ''Hello'' [])
      = Inl (HTTPException 500 ''cannot encode'')"
    using chat_exception_gives_500_and_history_kept [of idle "''Hello''"
        failing_encode_tokenizer "Exception ''cannot encode''" toy_model]
    by (simp add: ev failing_encode_tokenizer_def)
  have 3: "chat no_pad_tokenizer toy_model (payload ''Hello'' [])
      = Inl (HTTPException 500 (CHR 0x27 # ''bool'' @ CHR 0x27 # '' object has no attribute ''
                 @ CHR 0x27 # ''long'' @ [CHR 0x27]))"
    using chat_exception_gives_500_and_history_kept [of idle "''Hello''" no_pad_tokenizer
        "Exception (CHR 0x27 # ''bool'' @ CHR 0x27 # '' object has no attribute ''
                 @ CHR 0x27 # ''long'' @ [CHR 0x27])" toy_model]
    by (simp add: ev no_pad_tokenizer_def)
  have 4: "chat toy_tokenizer failing_model (payload ''Hello'' [])
      = Inl (HTTPException 500 ''out of memory'')
    \<and> local_history (turn (Line ''Hello'') (service toy_tokenizer failing_model) idle) = []
    \<and> running (turn (Line ''Hello'') (service toy_tokenizer failing_model) idle)
    \<and> printed (turn (Line ''Hello'') (service toy_tokenizer failing_model) idle)
      = [''You: '', ''Bot: ...'' @ [CHR 0x0D],
          nl @ ''Error: Server returned status 500'' @ nl,
          ''Detail: out of memory'' @ nl, dashes @ nl]"
    using chat_exception_gives_500_and_history_kept [of idle "''Hello''" toy_tokenizer
        "Exception ''out of memory''" failing_model]
    by (simp add: ev failing_model_def)
  have 5: "chat failing_decode_tokenizer toy_model (payload ''Hello'' [])
      = Inl (HTTPException 500 ''cannot decode'')"
    using chat_exception_gives_500_and_history_kept [of idle "''Hello''"
        failing_decode_tokenizer "Exception ''cannot decode''" toy_model]
    by (simp add: ev failing_decode_tokenizer_def)
  from 1 2 3 4 5 show ?thesis by simp
qed

section \<open>Bounds on the history sent and kept\<close>

lemma run_network_invariant:
  assumes "\<And>u h. Q (payload u h)"
  shows "(\<forall>u p. POST u p \<in> set (network s) \<longrightarrow> Q p) \<Longrightarrow>
     (\<forall>u p. POST u p \<in> set (network (run events s)) \<longrightarrow> Q p)"
proof (induction events arbitrary: s)
  case Nil
  then show ?case by simp
next
  case (Cons e es)
  from turn_network_cases [of "fst e" "snd e" s] Cons.prems assms
  have "\<forall>u p. POST u p \<in> set (network (turn (fst e) (snd e) s)) \<longrightarrow> Q p"
    by auto
  then have "\<forall>u p. POST u p \<in> set (network (run es (turn (fst e) (snd e) s))) \<longrightarrow> Q p"
    by (rule Cons.IH)
  then show ?case by simp
qed

text \<open>
  Claim C5. Every request the client posts, on any run from its start and whatever the
  server and the terminal do, carries at most 10 history entries; for any local history
  \<open>h\<close> the payload's history is the suffix of \<open>h\<close> of length \<open>min 10 (length h)\<close>, its most
  recent entries.
\<close>

theorem payload_history_at_most_10:
  "(\<forall>u p. POST u p \<in> set (network (main health events)) \<longrightarrow> length (history p) \<le> 10)
   \<and> length (history (payload user_input h)) = min 10 (length h)
   \<and> suffix (history (payload user_input h)) h"
proof -
  have "\<forall>u p. POST u p \<in> set (network (run events (main_init health)))
      \<longrightarrow> length (history p) \<le> 10"
    by (rule run_network_invariant) (simp_all add: payload_def length_last_n main_init_network)
  then show ?thesis
    by (simp add: main_def payload_def length_last_n suffix_last_n)
qed

theorem payload_history_at_most_10_witness:
  "POST API_URL \<lparr>message = ''Hello'', history = [], max_length = 500, temperature = 0.7\<rparr>
      \<in> set (network (main GetResponded [(Line ''Hello'', service toy_tokenizer toy_model)]))
   \<and> length (history \<lparr>message = ''Hello'', history = [], max_length = 500,
        temperature = 0.7\<rparr>) \<le> 10
   \<and> length (history (payload ''again'' (replicate 12 \<lparr>role = ''user'', content = ''x''\<rparr>)))
      = 10
   \<and> history (payload ''again'' [\<lparr>role = ''user'', content = ''Hello''\<rparr>,
        \<lparr>role = ''assistant'', content = ''Hi''\<rparr>])
      = [\<lparr>role = ''user'', content = ''Hello''\<rparr>, \<lparr>role = ''assistant'', content = ''Hi''\<rparr>]"
proof -
  have "network (main GetResponded [(Line ''Hello'', service toy_tokenizer toy_model)])
      = [GET ''http://localhost:8000/'',
         POST API_URL \<lparr>message = ''Hello'', history = [], max_length = 500,
           temperature = 0.7\<rparr>]"
    using turn_posts [of "main_init GetResponded" "''Hello''" "service toy_tokenizer toy_model"]
    by (simp add: main_def main_init_running main_init_network main_init_history
        strip_samples lower_samples payload_def last_n_def)
  then show ?thesis
    using payload_history_at_most_10 [of GetResponded "[(Line ''Hello'', service toy_tokenizer toy_model)]"
        "''again''" "replicate 12 \<lparr>role = ''user'', content = ''x''\<rparr>"]
    by (simp add: payload_def last_n_def)
qed

text \<open>
  Claim C6. After any run from the start, the local history has at most 20 entries. A
  completed turn replaces the history \<open>h\<close> by \<open>update_history h u b\<close>, which is the suffix
  of \<open>h\<close> followed by the new user and assistant entries of length
  \<open>min 20 (length h + 2)\<close>: when the list outgrows 20, its most recent 20 entries.
\<close>

theorem local_history_at_most_20:
  "length (local_history (main health events)) \<le> 20
   \<and> length (update_history h u b) = min 20 (length h + 2)
   \<and> suffix (update_history h u b)
        (h @ [\<lparr>role = ''user'', content = u\<rparr>, \<lparr>role = ''assistant'', content = b\<rparr>])
   \<and> (running s \<and> strip raw \<noteq> [] \<and> lower (strip raw) \<notin> {''quit'', ''exit'', ''clear''}
        \<and> post API_URL (payload (strip raw) (local_history s)) = Responded resp
        \<and> is_success resp \<and> json resp = Inr data
      \<longrightarrow> local_history (turn (Line raw) post s)
          = update_history (local_history s) (strip raw) (strip (get data ''response'' [])))"
proof -
  have "length (local_history (run events (main_init health))) \<le> 20"
    by (rule run_history_invariant) (simp_all add: length_update_history main_init_history)
  then show ?thesis
    using turn_completed [of s raw post resp data]
    by (simp add: main_def length_update_history suffix_update_history)
qed

theorem local_history_at_most_20_witness:
  "length (local_history (main GetResponded
      [(Line ''Hello'', service toy_tokenizer toy_model),
       (Line ''again'', service toy_tokenizer toy_model)])) \<le> 20
   \<and> length (update_history full_history ''again'' ''Hi'') = 20
   \<and> local_history (turn (Line ''again'') (service toy_tokenizer toy_model)
        \<lparr>local_history = full_history, printed = [], network = [], running = True\<rparr>)
      = update_history full_history ''again'' ''Hi''"
  using local_history_at_most_20 [of GetResponded "[(Line ''Hello'', service toy_tokenizer toy_model),
       (Line ''again'', service toy_tokenizer toy_model)]" full_history "''again''" "''Hi''"
      "\<lparr>local_history = full_history, printed = [], network = [], running = True\<rparr>"
      "''again''" "service toy_tokenizer toy_model"
      "\<lparr>status_code = 200, json = Inr [(''response'', ''Hi'')]\<rparr>" "[(''response'', ''Hi'')]"]
  by (simp add: length_full_history strip_samples lower_samples service_toy is_success_def
      get_def)

section \<open>The attention mask\<close>

lemma scalar_in_range:
  "- (2 ^ 63) \<le> p \<Longrightarrow> p < 2 ^ 64 \<Longrightarrow> scalar p = Inr (word_of_int p)"
  by (simp add: scalar_def)

lemma scalar_out_of_range:
  "p < - (2 ^ 63) \<or> 2 ^ 64 \<le> p \<Longrightarrow> \<exists>e. scalar p = Inl e"
  by (auto simp: scalar_def)

lemma attention_mask_nth:
  "i < length input_ids \<Longrightarrow>
     attention_mask input_ids pad ! i = (if input_ids ! i \<noteq> pad then 1 else 0)"
  by (simp add: attention_mask_def tensor_ne_def tensor_long_def)

lemma attention_mask_all_ones:
  "attention_mask input_ids pad = replicate (length input_ids) 1 \<longleftrightarrow> pad \<notin> set input_ids"
  by (induction input_ids) (auto simp: attention_mask_def tensor_ne_def tensor_long_def)

text \<open>
  Claim C7 says that the mask marks a position as genuine exactly when its token is a
  genuine input token. The endpoint pads nothing, so every token of the assembled input
  is genuine. With a tokenizer whose pad token is its end-of-sequence token and whose
  template closes the user turn with that token, the input for the message \<open>Hello\<close> is
  the three tokens 2, 7, 1, and the mask is 1, 1, 0: the closing token of the prompt is
  marked as padding.
\<close>

theorem prompt_token_with_pad_id_is_masked:
  "tokenize eos_pad_tokenizer
      (build_messages \<lparr>message = ''Hello'', history = [], max_length = 500, temperature = 0.7\<rparr>)
     = Inr [2, 7, 1]
   \<and> build_mask eos_pad_tokenizer [2, 7, 1] = Inr [1, 1, 0]
   \<and> build_mask eos_pad_tokenizer [2, 7, 1] \<noteq> Inr (replicate (length [2, 7, 1 :: token]) 1)"
  by (simp add: tokenize_def build_messages_def eos_pad_tokenizer_def toy_tokenizer_def
      mask_eval)

text \<open>
  Claim C7, amended. When the tokenizer's \<open>pad_token_id\<close> is an integer \<open>p\<close> from
  \<open>- 2 ^ 63\<close> up to \<open>2 ^ 64 - 1\<close>, the mask built before generation is the mask of the input
  against \<open>p\<close> read as a 64-bit integer. That mask has one entry per input position, 1
  exactly at the positions whose token id differs from the pad id and 0 exactly at those
  whose token id is the pad id, whether or not the token belongs to the prompt; it is all
  ones exactly when no input token carries the pad id. When the tokenizer has no
  \<open>pad_token_id\<close>, or one outside that range, no mask is built: the line raises, and a
  request tokenized that far is answered with status 500.
\<close>

theorem attention_mask_by_pad_id:
  "(pad_token_id tok = Some p \<and> - (2 ^ 63) \<le> p \<and> p < 2 ^ 64 \<longrightarrow>
      build_mask tok input_ids = Inr (attention_mask input_ids (word_of_int p)))
   \<and> length (attention_mask input_ids pad) = length input_ids
   \<and> (\<forall>i < length input_ids.
        (attention_mask input_ids pad ! i = 1 \<longleftrightarrow> input_ids ! i \<noteq> pad)
        \<and> (attention_mask input_ids pad ! i = 0 \<longleftrightarrow> input_ids ! i = pad))
   \<and> (attention_mask input_ids pad = replicate (length input_ids) 1
        \<longleftrightarrow> pad \<notin> set input_ids)
   \<and> (pad_token_id tok = None
        \<or> (\<exists>q. pad_token_id tok = Some q \<and> (q < - (2 ^ 63) \<or> 2 ^ 64 \<le> q)) \<longrightarrow>
        (\<exists>e. build_mask tok input_ids = Inl e)
        \<and> (tokenize tok (build_messages request) = Inr input_ids \<longrightarrow>
             (\<exists>e. chat tok generate request = Inl (HTTPException 500 (str_exn e)))))"
proof -
  have a: "build_mask tok input_ids = Inr (attention_mask input_ids (word_of_int p))"
    if "pad_token_id tok = Some p" and "- (2 ^ 63) \<le> p" and "p < 2 ^ 64"
    using that by (simp add: build_mask_def scalar_in_range)
  have b: "length (attention_mask input_ids pad) = length input_ids"
    by (simp add: attention_mask_def tensor_ne_def tensor_long_def)
  have c: "\<forall>i < length input_ids.
        (attention_mask input_ids pad ! i = 1 \<longleftrightarrow> input_ids ! i \<noteq> pad)
        \<and> (attention_mask input_ids pad ! i = 0 \<longleftrightarrow> input_ids ! i = pad)"
    by (simp add: attention_mask_nth)
  have d: "\<exists>e. build_mask tok input_ids = Inl e"
    if "pad_token_id tok = None
        \<or> (\<exists>q. pad_token_id tok = Some q \<and> (q < - (2 ^ 63) \<or> 2 ^ 64 \<le> q))"
    using that scalar_out_of_range by (fastforce simp: build_mask_def)
  have e: "\<exists>e. chat tok generate request = Inl (HTTPException 500 (str_exn e))"
    if "\<exists>e. build_mask tok input_ids = Inl e"
      and "tokenize tok (build_messages request) = Inr input_ids"
  proof -
    from that obtain x where "build_mask tok input_ids = Inl x" by blast
    with that(2) have "chat_try tok generate request = Inl x"
      by (simp add: chat_try_def)
    then show ?thesis by (auto simp: chat_def)
  qed
  from a b c d e attention_mask_all_ones [of input_ids pad] show ?thesis
    by blast
qed

theorem attention_mask_by_pad_id_witness:
  "build_mask toy_tokenizer [2, 7, 0, 7] = Inr [1, 1, 0, 1]
   \<and> attention_mask [2, 7, 0, 7] 0 ! 2 = 0 \<and> attention_mask [2, 7, 0, 7] 0 ! 3 = 1
   \<and> attention_mask [2, 7, 7] 0 = [1, 1, 1]
   \<and> build_mask (toy_tokenizer\<lparr>pad_token_id := Some (2 ^ 64 - 1)\<rparr>) [- 1, 2] = Inr [0, 1]
   \<and> (\<exists>e. build_mask (toy_tokenizer\<lparr>pad_token_id := Some (2 ^ 64)\<rparr>) [2, 7] = Inl e)
   \<and> (\<exists>e. build_mask no_pad_tokenizer [2, 7] = Inl e)
   \<and> (\<exists>e. chat no_pad_tokenizer toy_model
          \<lparr>message = ''Hello'', history = [], max_length = 500, temperature = 0.7\<rparr>
        = Inl (HTTPException 500 (str_exn e)))"
proof -
  have 1: "build_mask toy_tokenizer [2, 7, 0, 7] = Inr [1, 1, 0, 1]
     \<and> attention_mask [2, 7, 0, 7] 0 ! 2 = 0 \<and> attention_mask [2, 7, 0, 7] 0 ! 3 = 1"
    using attention_mask_by_pad_id [of toy_tokenizer 0 "[2, 7, 0, 7]" 0]
    by (simp add: toy_tokenizer_def attention_mask_def tensor_ne_def tensor_long_def)
  have 2: "attention_mask [2, 7, 7] 0 = [1, 1, 1]"
    using attention_mask_by_pad_id [of toy_tokenizer 0 "[2, 7, 7]" 0]
    by simp
  have 3: "build_mask (toy_tokenizer\<lparr>pad_token_id := Some (2 ^ 64 - 1)\<rparr>) [- 1, 2] = Inr [0, 1]"
    using attention_mask_by_pad_id [of "toy_tokenizer\<lparr>pad_token_id := Some (2 ^ 64 - 1)\<rparr>"
        "2 ^ 64 - 1" "[- 1, 2]" 0]
    by (simp add: attention_mask_def tensor_ne_def tensor_long_def)
  have 4: "\<exists>e. build_mask (toy_tokenizer\<lparr>pad_token_id := Some (2 ^ 64)\<rparr>) [2, 7] = Inl e"
    using attention_mask_by_pad_id [of "toy_tokenizer\<lparr>pad_token_id := Some (2 ^ 64)\<rparr>"
        0 "[2, 7]" 0]
    by simp
  have 5: "(\<exists>e. build_mask no_pad_tokenizer [2, 7] = Inl e)
     \<and> (\<exists>e. chat no_pad_tokenizer toy_model
          \<lparr>message = ''Hello'', history = [], max_length = 500, temperature = 0.7\<rparr>
        = Inl (HTTPException 500 (str_exn e)))"
    using attention_mask_by_pad_id [of no_pad_tokenizer 0 "[2, 7]" 0
        "\<lparr>message = ''Hello'', history = [], max_length = 500, temperature = 0.7\<rparr>" toy_model]
    by (simp add: no_pad_tokenizer_def toy_tokenizer_def tokenize_def build_messages_def)
  from 1 2 3 4 5 show ?thesis by simp
qed

section \<open>The fallback without a chat template\<close>

lemma join_cons: "join sep (p # ps) = p @ concat (map (\<lambda>q. sep @ q) ps)"
  by (induction ps arbitrary: p) simp_all

text \<open>
  Claim C8 says that the fallback prompt differs from the templated one. Nothing in the
  endpoint makes it so: a template that renders the plain transcript gives, for the
  message \<open>Hello\<close>, the very input that the same tokenizer gives without the template
  method.
\<close>

theorem fallback_prompt_equals_templated_prompt:
  "apply_chat_template plain_tokenizer = None
   \<and> apply_chat_template transcript_tokenizer \<noteq> None
   \<and> tokenize plain_tokenizer
        (build_messages \<lparr>message = ''Hello'', history = [], max_length = 500,
           temperature = 0.7\<rparr>)
     = tokenize transcript_tokenizer
        (build_messages \<lparr>message = ''Hello'', history = [], max_length = 500,
           temperature = 0.7\<rparr>)"
  by (simp add: tokenize_def plain_tokenizer_def transcript_tokenizer_def toy_tokenizer_def)

text \<open>
  Claim C8, amended. For a tokenizer object without the \<open>apply_chat_template\<close> attribute,
  the input of the model is what \<open>encode\<close> gives on the plain transcript: nothing for no
  message, and for the messages \<open>m, ms\<close> the line \<open>role: content\<close> of \<open>m\<close> followed, for each
  further message in order, by a newline and its line. The branch raises nothing of its
  own: when \<open>encode\<close> returns the ids, the endpoint goes on to the mask, the generation
  and the decoding with them.
\<close>

theorem fallback_encodes_plain_transcript:
  assumes "apply_chat_template tok = None"
  shows "tokenize tok messages = encode tok (context messages)
    \<and> context [] = []
    \<and> context (m # ms)
        = role m @ '': '' @ content m
          @ concat (map (\<lambda>x. [CHR 0x0A] @ role x @ '': '' @ content x) ms)
    \<and> (encode tok (context (build_messages request)) = Inr input_ids \<longrightarrow>
         chat_try tok generate request
         = (case build_mask tok input_ids of
              Inl e \<Rightarrow> Inl e
            | Inr am \<Rightarrow>
                (case generate input_ids am (max_length request) (temperature request) True
                        (eos_token_id tok) of
                   Inl e \<Rightarrow> Inl e
                 | Inr outputs \<Rightarrow>
                     (case decode tok (drop (length input_ids) outputs) of
                        Inl e \<Rightarrow> Inl e
                      | Inr response_text \<Rightarrow> Inr \<lparr>response = response_text\<rparr>))))"
  using assms
  by (simp add: tokenize_def context_def join_cons chat_try_def comp_def)

theorem fallback_encodes_plain_transcript_witness:
  "tokenize plain_tokenizer
      [\<lparr>role = ''user'', content = ''Hello''\<rparr>, \<lparr>role = ''assistant'', content = ''Hi''\<rparr>]
     = encode plain_tokenizer (''user: Hello'' @ [CHR 0x0A] @ ''assistant: Hi'')
   \<and> chat_try plain_tokenizer toy_model
        \<lparr>message = ''Hello'', history = [], max_length = 200, temperature = 0.7\<rparr>
     = Inr \<lparr>response = ''Hi''\<rparr>"
  using fallback_encodes_plain_transcript [of plain_tokenizer
      "[\<lparr>role = ''user'', content = ''Hello''\<rparr>, \<lparr>role = ''assistant'', content = ''Hi''\<rparr>]"
      "\<lparr>role = ''user'', content = ''Hello''\<rparr>"
      "[\<lparr>role = ''assistant'', content = ''Hi''\<rparr>]"
      "\<lparr>message = ''Hello'', history = [], max_length = 200, temperature = 0.7\<rparr>"
      "[2, 7, 7, 7, 7, 7, 7, 7, 7, 7, 7, 7]" toy_model]
  by (simp add: plain_tokenizer_def toy_tokenizer_def toy_model_def build_messages_def
      mask_eval context_def)

section \<open>The clear command\<close>

text \<open>
  Claim C9. In a running client, a line that reads \<open>clear\<close> once stripped and lowercased
  empties the local history, issues no HTTP request (the list of requests issued is
  unchanged), prints \<open>History cleared.\<close> and leaves the loop running.
\<close>

theorem clear_resets_history_without_request:
  assumes "running s" and "lower (strip raw) = ''clear''"
  shows "local_history (turn (Line raw) post s) = []
    \<and> network (turn (Line raw) post s) = network s
    \<and> running (turn (Line raw) post s)
    \<and> printed (turn (Line raw) post s) = printed s @ [''You: '', ''History cleared.'' @ nl]"
proof -
  from assms(2) have "strip raw \<noteq> []"
    by (auto simp: lower_def)
  with assms show ?thesis
    by (simp add: turn_def print_def Let_def)
qed

theorem clear_resets_history_without_request_witness:
  "local_history (turn (Line '' Clear '') (service toy_tokenizer toy_model)
      \<lparr>local_history = full_history, printed = [], network = [], running = True\<rparr>) = []
   \<and> network (turn (Line '' Clear '') (service toy_tokenizer toy_model)
      \<lparr>local_history = full_history, printed = [], network = [], running = True\<rparr>) = []
   \<and> printed (turn (Line '' Clear '') (service toy_tokenizer toy_model)
      \<lparr>local_history = full_history, printed = [], network = [], running = True\<rparr>)
     = [''You: '', ''History cleared.'' @ nl]"
  using clear_resets_history_without_request [of "\<lparr>local_history = full_history, printed = [], network = [], running = True\<rparr>"
      "'' Clear ''" "service toy_tokenizer toy_model"]
  by (simp add: strip_samples lower_samples)

section \<open>Alternation of the local history\<close>

text \<open>
  Claim C10. After any run from the start, the local history has even length and consists
  of consecutive pairs, role \<open>user\<close> then role \<open>assistant\<close>: the entry at an even index has
  role \<open>user\<close>, the entry at an odd index role \<open>assistant\<close>. The update of a completed turn,
  truncation included, keeps any such history one: two entries are appended, and an even
  number is dropped.
\<close>

theorem local_history_alternates:
  "even (length (local_history (main health events)))
   \<and> alternating (local_history (main health events))
   \<and> (\<forall>i < length (local_history (main health events)).
        role (local_history (main health events) ! i)
          = (if even i then ''user'' else ''assistant''))
   \<and> (alternating h \<longrightarrow> alternating (update_history h u b))"
proof -
  have a: "alternating (local_history (run events (main_init health)))"
    by (rule run_history_invariant) (simp_all add: alternating_update_history main_init_history)
  then show ?thesis
    by (simp add: main_def alternating_even alternating_nth alternating_update_history)
qed

theorem local_history_alternates_witness:
  "even (length (local_history (main GetResponded
        [(Line ''Hello'', service toy_tokenizer toy_model),
         (Line ''again'', service toy_tokenizer toy_model)])))
   \<and> role (local_history (main GetResponded
        [(Line ''Hello'', service toy_tokenizer toy_model),
         (Line ''again'', service toy_tokenizer toy_model)]) ! 2) = ''user''
   \<and> role (local_history (main GetResponded
        [(Line ''Hello'', service toy_tokenizer toy_model),
         (Line ''again'', service toy_tokenizer toy_model)]) ! 3) = ''assistant''
   \<and> alternating [\<lparr>role = ''user'', content = ''Hello''\<rparr>,
        \<lparr>role = ''assistant'', content = ''Hi''\<rparr>]
   \<and> alternating (update_history [\<lparr>role = ''user'', content = ''Hello''\<rparr>,
        \<lparr>role = ''assistant'', content = ''Hi''\<rparr>] ''again'' ''Hi'')"
proof -
  have a: "alternating [\<lparr>role = ''user'', content = ''Hello''\<rparr>,
        \<lparr>role = ''assistant'', content = ''Hi''\<rparr>]"
    by simp
  have n: "length (local_history (main GetResponded
        [(Line ''Hello'', service toy_tokenizer toy_model),
         (Line ''again'', service toy_tokenizer toy_model)])) = 4"
    by (simp add: main_two_turns)
  show ?thesis
    using local_history_alternates [of GetResponded "[(Line ''Hello'', service toy_tokenizer toy_model),
         (Line ''again'', service toy_tokenizer toy_model)]"
        "[\<lparr>role = ''user'', content = ''Hello''\<rparr>, \<lparr>role = ''assistant'', content = ''Hi''\<rparr>]"
        "''again''" "''Hi''"] a n
    by simp
qed

end
